theory Spec2Isabelle
  imports Complex_Main "HOL-Library.Monad_Syntax"
begin

section \<open>Python values: exceptions and floats\<close>

text \<open>
  The two scripts raise no exception of their own; the ones below are the built-in
  exceptions their expressions can raise. A computation that can raise returns
  \<open>pyerr + 'a\<close>, with \<open>Inl\<close> for the exception.
\<close>

datatype pyerr = NameError string | ValueError | OverflowError | ZeroDivisionError

definition bindE :: "pyerr + 'a \<Rightarrow> ('a \<Rightarrow> pyerr + 'b) \<Rightarrow> pyerr + 'b" where
  "bindE m f = (case m of Inl e \<Rightarrow> Inl e | Inr v \<Rightarrow> f v)"

text \<open>
  A Python \<open>float\<close> is a finite number, an infinity or NaN. Finite values are taken as
  real numbers: rounding to the nearest double is not modelled (every finite result is
  exact, and the decimal constants of the source stand for the fractions they are
  written as), and the two zeros are one. Overflow is modelled: a finite result whose
  magnitude reaches \<open>2^1024 - 2^970\<close> (the least magnitude that rounds to infinity)
  is an infinity.
\<close>

datatype pyfloat = Fin real | PInf | NInf | NaN

definition float_ovf :: real where
  "float_ovf = 2 ^ 1024 - 2 ^ 970"

definition fround :: "real \<Rightarrow> pyfloat" where
  "fround r = (if float_ovf \<le> r then PInf else if r \<le> - float_ovf then NInf else Fin r)"

fun fadd :: "pyfloat \<Rightarrow> pyfloat \<Rightarrow> pyfloat" where
  "fadd NaN y = NaN"
| "fadd x NaN = NaN"
| "fadd (Fin a) (Fin b) = fround (a + b)"
| "fadd (Fin a) PInf = PInf"
| "fadd (Fin a) NInf = NInf"
| "fadd PInf (Fin b) = PInf"
| "fadd NInf (Fin b) = NInf"
| "fadd PInf PInf = PInf"
| "fadd NInf NInf = NInf"
| "fadd PInf NInf = NaN"
| "fadd NInf PInf = NaN"

definition inf_signed :: "bool \<Rightarrow> pyfloat" where
  "inf_signed positive = (if positive then PInf else NInf)"

fun fmul :: "pyfloat \<Rightarrow> pyfloat \<Rightarrow> pyfloat" where
  "fmul NaN y = NaN"
| "fmul x NaN = NaN"
| "fmul (Fin a) (Fin b) = fround (a * b)"
| "fmul (Fin a) PInf = (if a = 0 then NaN else inf_signed (0 < a))"
| "fmul (Fin a) NInf = (if a = 0 then NaN else inf_signed (a < 0))"
| "fmul PInf (Fin b) = (if b = 0 then NaN else inf_signed (0 < b))"
| "fmul NInf (Fin b) = (if b = 0 then NaN else inf_signed (b < 0))"
| "fmul PInf PInf = PInf"
| "fmul NInf NInf = PInf"
| "fmul PInf NInf = NInf"
| "fmul NInf PInf = NInf"

text \<open>True division of floats: a zero divisor raises, whatever the dividend.\<close>

fun fdiv :: "pyfloat \<Rightarrow> pyfloat \<Rightarrow> pyerr + pyfloat" where
  "fdiv x (Fin b) =
     (if b = 0 then Inl ZeroDivisionError
      else case x of
        Fin a \<Rightarrow> Inr (fround (a / b))
      | PInf \<Rightarrow> Inr (inf_signed (0 < b))
      | NInf \<Rightarrow> Inr (inf_signed (b < 0))
      | NaN \<Rightarrow> Inr NaN)"
| "fdiv x NaN = Inr NaN"
| "fdiv (Fin a) y = Inr (Fin 0)"
| "fdiv x y = Inr NaN"

text \<open>
  An \<open>int\<close> operand of a mixed \<open>int\<close>/\<open>float\<close> operation is converted to a float
  first; an integer too large for a double raises \<open>OverflowError\<close>.
\<close>

definition int_to_float :: "int \<Rightarrow> pyerr + pyfloat" where
  "int_to_float n =
     (if float_ovf \<le> \<bar>of_int n\<bar> then Inl OverflowError else Inr (Fin (of_int n)))"

text \<open>
  \<open>int(x)\<close> of a float truncates towards zero; it raises \<open>ValueError\<close> on NaN and
  \<open>OverflowError\<close> on an infinity.
\<close>

definition trunc :: "real \<Rightarrow> int" where
  "trunc r = (if 0 \<le> r then \<lfloor>r\<rfloor> else \<lceil>r\<rceil>)"

definition py_int :: "pyfloat \<Rightarrow> pyerr + int" where
  "py_int x =
     (case x of
        Fin r \<Rightarrow> Inr (trunc r)
      | PInf \<Rightarrow> Inl OverflowError
      | NInf \<Rightarrow> Inl OverflowError
      | NaN \<Rightarrow> Inl ValueError)"

section \<open>The pattern grid: colour mapping\<close>

definition PATTERN_COLOR_RANGE :: "(int \<times> int \<times> int) \<times> (int \<times> int \<times> int)" where
  "PATTERN_COLOR_RANGE = ((0, 0, 0), (100, 100, 255))"

text \<open>
  One channel of the interpolation, \<open>int(start + (end - start) * value)\<close>: the
  difference is an \<open>int\<close>, converted for the product; then \<open>start\<close> is converted for
  the sum.
\<close>

definition interpolate :: "int \<Rightarrow> int \<Rightarrow> pyfloat \<Rightarrow> pyerr + int" where
  "interpolate s e v =
     bindE (int_to_float (e - s)) (\<lambda>d.
     let p = fmul d v in
     bindE (int_to_float s) (\<lambda>s'.
     py_int (fadd s' p)))"

text \<open>The three assignments to \<open>r\<close>, \<open>g\<close>, \<open>b\<close> before the clamp.\<close>

definition raw_channels :: "pyfloat \<Rightarrow> pyerr + (int \<times> int \<times> int)" where
  "raw_channels v =
     (let start_color = fst PATTERN_COLOR_RANGE; end_color = snd PATTERN_COLOR_RANGE in
      bindE (interpolate (fst start_color) (fst end_color) v) (\<lambda>r.
      bindE (interpolate (fst (snd start_color)) (fst (snd end_color)) v) (\<lambda>g.
      bindE (interpolate (snd (snd start_color)) (snd (snd end_color)) v) (\<lambda>b.
      Inr (r, g, b)))))"

text \<open>The clamp, \<open>max(0, min(255, c))\<close> on each channel.\<close>

definition clamp_channel :: "int \<Rightarrow> int" where
  "clamp_channel c = max 0 (min 255 c)"

definition map_value_to_color :: "pyfloat \<Rightarrow> pyerr + (int \<times> int \<times> int)" where
  "map_value_to_color v =
     bindE (raw_channels v) (\<lambda>(r, g, b).
     Inr (clamp_channel r, clamp_channel g, clamp_channel b))"

section \<open>The pattern grid: pattern value\<close>

text \<open>
  A global name is looked up in the module's namespace when the expression is evaluated,
  and raises \<open>NameError\<close> when the module does not bind it. The namespace is a
  parameter of the functions that read a module name, so that the formula can be stated
  for any namespace; \<open>module_globals\<close> is the one of the script: the names of its
  \<open>import\<close> lines, its constants, its functions and the variables of its main block.
  The script imports \<open>Image\<close>, \<open>ImageDraw\<close> and \<open>random\<close>; it does not import
  \<open>math\<close>, which is not a built-in name either.
\<close>

definition module_globals :: "string list" where
  "module_globals =
     [''Image'', ''ImageDraw'', ''random'',
      ''GRID_SIZE'', ''CELL_SIZE'', ''IMAGE_WIDTH'', ''IMAGE_HEIGHT'',
      ''BACKGROUND_COLOR'', ''PATTERN_COLOR_RANGE'',
      ''get_pattern_value'', ''map_value_to_color'', ''draw_grid_pattern'',
      ''num_frames'', ''output_filename_base'', ''frame_num'', ''image'',
      ''current_time_factor'', ''output_filename'']"

definition lookup_global :: "string list \<Rightarrow> string \<Rightarrow> pyerr + unit" where
  "lookup_global g name = (if name \<in> set g then Inr () else Inl (NameError name))"

text \<open>
  \<open>math.sin\<close> and \<open>math.cos\<close> of the standard library: NaN gives NaN, an infinity
  raises \<open>ValueError\<close> (math domain error).
\<close>

definition math_sin :: "pyfloat \<Rightarrow> pyerr + pyfloat" where
  "math_sin x =
     (case x of Fin r \<Rightarrow> Inr (Fin (sin r)) | NaN \<Rightarrow> Inr NaN
      | PInf \<Rightarrow> Inl ValueError | NInf \<Rightarrow> Inl ValueError)"

definition math_cos :: "pyfloat \<Rightarrow> pyerr + pyfloat" where
  "math_cos x =
     (case x of Fin r \<Rightarrow> Inr (Fin (cos r)) | NaN \<Rightarrow> Inr NaN
      | PInf \<Rightarrow> Inl ValueError | NInf \<Rightarrow> Inl ValueError)"

text \<open>
  \<open>get_pattern_value\<close>, statement by statement. Each \<open>int\<close> operand of a product
  with a float constant is converted first. The name \<open>math\<close> is looked up at each of
  its two uses, before the argument of the call is evaluated.
\<close>

definition get_pattern_value_in ::
  "string list \<Rightarrow> int \<Rightarrow> int \<Rightarrow> pyfloat \<Rightarrow> pyerr + pyfloat" where
  "get_pattern_value_in g row col time_factor =
     bindE (int_to_float (row + col)) (\<lambda>rc.
     let base_value = fmul rc (Fin (1 / 10)) in
     bindE (int_to_float \<bar>row - col\<bar>) (\<lambda>d.
     bindE (int_to_float row) (\<lambda>r.
     bindE (int_to_float col) (\<lambda>c.
     let pattern_noise =
           fadd (fadd (fadd (fmul d (Fin (2 / 10))) (fmul r (Fin (3 / 10))))
                      (fmul c (Fin (4 / 10))))
                (fmul time_factor (Fin (5 / 10))) in
     bindE (lookup_global g ''math'') (\<lambda>_.
     bindE (math_sin (fadd base_value pattern_noise)) (\<lambda>sine_wave_1.
     bindE (lookup_global g ''math'') (\<lambda>_.
     bindE (math_cos (fmul pattern_noise (Fin (15 / 10)))) (\<lambda>sine_wave_2.
     let combined_value =
           fadd (fmul sine_wave_1 (Fin (5 / 10))) (fmul sine_wave_2 (Fin (5 / 10))) in
     bindE (int_to_float 1) (\<lambda>one.
     bindE (int_to_float 2) (\<lambda>two.
     fdiv (fadd combined_value one) two))))))))))"

definition get_pattern_value :: "int \<Rightarrow> int \<Rightarrow> pyfloat \<Rightarrow> pyerr + pyfloat" where
  "get_pattern_value = get_pattern_value_in module_globals"

section \<open>The pattern grid: drawing a frame\<close>

definition GRID_SIZE :: int where "GRID_SIZE = 16"
definition CELL_SIZE :: int where "CELL_SIZE = 30"
definition IMAGE_WIDTH :: int where "IMAGE_WIDTH = GRID_SIZE * CELL_SIZE"
definition IMAGE_HEIGHT :: int where "IMAGE_HEIGHT = GRID_SIZE * CELL_SIZE"
definition BACKGROUND_COLOR :: "int \<times> int \<times> int" where "BACKGROUND_COLOR = (255, 255, 255)"

text \<open>
  An image of the Pillow library is kept as the calls that made it: its size, its
  background and the filled rectangles drawn on it, oldest first.
\<close>

record image =
  img_size :: "int \<times> int"
  img_background :: "int \<times> int \<times> int"
  img_rects :: "((int \<times> int \<times> int \<times> int) \<times> (int \<times> int \<times> int)) list"

definition Image_new :: "int \<times> int \<Rightarrow> int \<times> int \<times> int \<Rightarrow> image" where
  "Image_new sz color = \<lparr>img_size = sz, img_background = color, img_rects = []\<rparr>"

definition rectangle :: "image \<Rightarrow> int \<times> int \<times> int \<times> int \<Rightarrow> int \<times> int \<times> int \<Rightarrow> image" where
  "rectangle img box fill = img\<lparr>img_rects := img_rects img @ [(box, fill)]\<rparr>"

text \<open>\<open>range(n)\<close>: the integers from 0 up to \<open>n - 1\<close>, none when \<open>n \<le> 0\<close>.\<close>

definition py_range :: "int \<Rightarrow> int list" where
  "py_range n = [0..n - 1]"

text \<open>The inner loop of \<open>draw_grid_pattern\<close>, over the columns of one row.\<close>

fun draw_row_cells :: "string list \<Rightarrow> pyfloat \<Rightarrow> int \<Rightarrow> int list \<Rightarrow> image \<Rightarrow> pyerr + image" where
  "draw_row_cells g time_factor row [] img = Inr img"
| "draw_row_cells g time_factor row (col # cols) img =
     bindE (get_pattern_value_in g row col time_factor) (\<lambda>pattern_val.
     bindE (map_value_to_color pattern_val) (\<lambda>cell_color.
     let x1 = col * CELL_SIZE;
         y1 = row * CELL_SIZE;
         x2 = x1 + CELL_SIZE;
         y2 = y1 + CELL_SIZE
     in draw_row_cells g time_factor row cols (rectangle img (x1, y1, x2, y2) cell_color)))"

text \<open>The outer loop, over the rows.\<close>

fun draw_rows :: "string list \<Rightarrow> pyfloat \<Rightarrow> int list \<Rightarrow> image \<Rightarrow> pyerr + image" where
  "draw_rows g time_factor [] img = Inr img"
| "draw_rows g time_factor (row # rows) img =
     bindE (draw_row_cells g time_factor row (py_range GRID_SIZE) img)
       (draw_rows g time_factor rows)"

definition draw_grid_pattern_in :: "string list \<Rightarrow> image \<Rightarrow> pyfloat \<Rightarrow> pyerr + image" where
  "draw_grid_pattern_in g img time_factor = draw_rows g time_factor (py_range GRID_SIZE) img"

definition draw_grid_pattern :: "image \<Rightarrow> pyfloat \<Rightarrow> pyerr + image" where
  "draw_grid_pattern = draw_grid_pattern_in module_globals"

section \<open>The pattern grid: the frame driver\<close>

text \<open>\<open>str\<close> of an integer: its decimal digits, after a minus sign when negative.\<close>

fun str_nat :: "nat \<Rightarrow> string" where
  "str_nat n = (if n < 10 then [''0123456789'' ! n] else str_nat (n div 10) @ [''0123456789'' ! (n mod 10)])"

definition str_int :: "int \<Rightarrow> string" where
  "str_int i = (if i < 0 then CHR ''-'' # str_nat (nat (- i)) else str_nat (nat i))"

text \<open>
  \<open>s.zfill(width)\<close>: zeros on the left up to \<open>width\<close> characters, after the sign when
  \<open>s\<close> starts with one; \<open>s\<close> itself when it is long enough.
\<close>

definition zfill :: "nat \<Rightarrow> string \<Rightarrow> string" where
  "zfill width s =
     (if width \<le> length s then s
      else case s of
        [] \<Rightarrow> replicate width (CHR ''0'')
      | c # rest \<Rightarrow>
          if c = CHR ''+'' \<or> c = CHR ''-''
          then c # replicate (width - length s) (CHR ''0'') @ rest
          else replicate (width - length s) (CHR ''0'') @ s)"

text \<open>True division of two integers, \<open>a / b\<close>.\<close>

definition py_truediv :: "int \<Rightarrow> int \<Rightarrow> pyerr + pyfloat" where
  "py_truediv a b =
     (if b = 0 then Inl ZeroDivisionError
      else if float_ovf \<le> \<bar>of_int a / of_int b :: real\<bar> then Inl OverflowError
      else Inr (Fin (of_int a / of_int b)))"

text \<open>
  What a run of the script leaves: the files it saved (a later save under the same name
  replaces the earlier file), the lines it printed, and the exception that ended it, if
  one did. Saving is taken to succeed.
\<close>

record outcome =
  files :: "(string \<times> image) list"
  printed :: "string list"
  raised :: "pyerr option"

fun save_file :: "(string \<times> image) list \<Rightarrow> string \<Rightarrow> image \<Rightarrow> (string \<times> image) list" where
  "save_file [] name img = [(name, img)]"
| "save_file ((n, i) # fs) name img =
     (if n = name then (n, img) # fs else (n, i) # save_file fs name img)"

definition frame_filename :: "string \<Rightarrow> int \<Rightarrow> string" where
  "frame_filename output_filename_base frame_num =
     output_filename_base @ zfill 3 (str_int (frame_num + 1)) @ ''.png''"

text \<open>The body of the \<open>for frame_num in range(num_frames)\<close> loop, and the loop.\<close>

definition render_frame :: "string list \<Rightarrow> int \<Rightarrow> int \<Rightarrow> pyerr + image" where
  "render_frame g num_frames frame_num =
     (let img = Image_new (IMAGE_WIDTH, IMAGE_HEIGHT) BACKGROUND_COLOR in
      bindE (py_truediv frame_num num_frames) (\<lambda>current_time_factor.
      draw_grid_pattern_in g img current_time_factor))"

fun frames_loop :: "string list \<Rightarrow> int \<Rightarrow> string \<Rightarrow> int list \<Rightarrow> outcome \<Rightarrow> outcome" where
  "frames_loop g num_frames output_filename_base [] st = st"
| "frames_loop g num_frames output_filename_base (frame_num # rest) st =
     (case render_frame g num_frames frame_num of
        Inl e \<Rightarrow> st\<lparr>raised := Some e\<rparr>
      | Inr img \<Rightarrow>
          let output_filename = frame_filename output_filename_base frame_num
          in frames_loop g num_frames output_filename_base rest
               (st\<lparr>files := save_file (files st) output_filename img,
                   printed := printed st @ [''Saved '' @ output_filename]\<rparr>))"

text \<open>The main block, started in an empty output directory.\<close>

definition main_in :: "string list \<Rightarrow> outcome" where
  "main_in g =
     (let num_frames = 60;
          output_filename_base = ''pattern_grid_'';
          st = \<lparr>files = [],
                printed = [''Generating '' @ str_int num_frames @ '' frames of evolving patterns...''],
                raised = None\<rparr>;
          st = frames_loop g num_frames output_filename_base (py_range num_frames) st
      in if raised st = None
         then st\<lparr>printed := printed st @
                ['''', ''Generation complete!'',
                 ''You can now view the generated PNG files to see the evolving patterns.'',
                 ''Consider using a GIF maker tool to combine these PNGs into an animation.'']\<rparr>
         else st)"

definition main :: outcome where
  "main = main_in module_globals"

section \<open>The fractal tree: the turtle\<close>

text \<open>
  The cursor of the \<open>turtle\<close> module: a position, an orientation in degrees
  (counter-clockwise, 0 pointing east, as in the module's standard mode) and the pen.
  Coordinates, angles and lengths are finite floats, taken as real numbers. The
  orientation is kept as any representative of the angle; \<open>heading\<close> reports it in
  \<open>[0, 360)\<close>, as the module does. The record also keeps the line segments drawn and
  the commands received, oldest first.
\<close>

datatype turtle_call =
  Forward real | Left real | Right real | Goto "real \<times> real" | Setheading real | Penup | Pendown

record turtle =
  xcor :: real
  ycor :: real
  orient :: real
  pen :: bool
  trail :: "((real \<times> real) \<times> (real \<times> real)) list"
  calls :: "turtle_call list"

definition norm360 :: "real \<Rightarrow> real" where
  "norm360 a = a - 360 * of_int \<lfloor>a / 360\<rfloor>"

definition position :: "turtle \<Rightarrow> real \<times> real" where
  "position t = (xcor t, ycor t)"

definition heading :: "turtle \<Rightarrow> real" where
  "heading t = norm360 (orient t)"

definition move_to :: "turtle \<Rightarrow> real \<times> real \<Rightarrow> turtle" where
  "move_to t p =
     t\<lparr>xcor := fst p, ycor := snd p,
       trail := (if pen t then trail t @ [(position t, p)] else trail t)\<rparr>"

definition forward :: "turtle \<Rightarrow> real \<Rightarrow> turtle" where
  "forward t distance =
     (let a = orient t * pi / 180
      in (move_to t (xcor t + distance * cos a, ycor t + distance * sin a))
           \<lparr>calls := calls t @ [Forward distance]\<rparr>)"

definition left :: "turtle \<Rightarrow> real \<Rightarrow> turtle" where
  "left t angle = t\<lparr>orient := orient t + angle, calls := calls t @ [Left angle]\<rparr>"

definition right :: "turtle \<Rightarrow> real \<Rightarrow> turtle" where
  "right t angle = t\<lparr>orient := orient t - angle, calls := calls t @ [Right angle]\<rparr>"

definition goto :: "turtle \<Rightarrow> real \<times> real \<Rightarrow> turtle" where
  "goto t p = (move_to t p)\<lparr>calls := calls t @ [Goto p]\<rparr>"

definition setheading :: "turtle \<Rightarrow> real \<Rightarrow> turtle" where
  "setheading t to_angle = t\<lparr>orient := to_angle, calls := calls t @ [Setheading to_angle]\<rparr>"

definition penup :: "turtle \<Rightarrow> turtle" where
  "penup t = t\<lparr>pen := False, calls := calls t @ [Penup]\<rparr>"

definition pendown :: "turtle \<Rightarrow> turtle" where
  "pendown t = t\<lparr>pen := True, calls := calls t @ [Pendown]\<rparr>"

text \<open>The number of \<open>forward\<close> calls a turtle has received.\<close>

fun is_forward :: "turtle_call \<Rightarrow> bool" where
  "is_forward (Forward d) = True"
| "is_forward c = False"

definition forward_calls :: "turtle \<Rightarrow> nat" where
  "forward_calls t = length (filter is_forward (calls t))"

section \<open>The fractal tree: the recursive drawer\<close>

definition BRANCH_ANGLE :: real where "BRANCH_ANGLE = 25"
definition BRANCH_SCALE :: real where "BRANCH_SCALE = 7 / 10"
definition INITIAL_LENGTH :: real where "INITIAL_LENGTH = 100"
definition RECURSION_DEPTH :: int where "RECURSION_DEPTH = 9"

text \<open>
  The four statements that put the turtle back on a saved state, pen up while it moves.
\<close>

definition restore :: "turtle \<Rightarrow> real \<times> real \<Rightarrow> real \<Rightarrow> turtle" where
  "restore t current_pos current_heading =
     pendown (setheading (goto (penup t) current_pos) current_heading)"

text \<open>
  \<open>draw_fractal_tree\<close>. The depth is a Python \<open>int\<close> and the only test is
  \<open>depth == 0\<close>, so the recursion is a partial function: \<open>None\<close> stands for a call
  that does not return. The interpreter's limit on the depth of the call stack is not
  modelled.
\<close>

partial_function (option) draw_fractal_tree :: "turtle \<Rightarrow> real \<Rightarrow> int \<Rightarrow> turtle option" where
  "draw_fractal_tree t len depth =
     (if depth = 0 then Some t
      else
        let t1 = forward t len;
            current_pos = position t1;
            current_heading = heading t1;
            t2 = left t1 BRANCH_ANGLE
        in do {
          t3 \<leftarrow> draw_fractal_tree t2 (len * BRANCH_SCALE) (depth - 1);
          let t4 = restore t3 current_pos current_heading;
          let t5 = right t4 BRANCH_ANGLE;
          t6 \<leftarrow> draw_fractal_tree t5 (len * BRANCH_SCALE) (depth - 1);
          Some (restore t6 current_pos current_heading)
        })"

text \<open>
  The turtle \<open>create_fractal_art\<close> makes and places before the drawing starts, and the
  call it makes. The window, the drawing speed and the colour are not modelled.
\<close>

definition new_turtle :: turtle where
  "new_turtle = \<lparr>xcor = 0, ycor = 0, orient = 0, pen = True, trail = [], calls = []\<rparr>"

definition artist :: turtle where
  "artist = pendown (left (goto (penup new_turtle) (0, - 250)) 90)"

definition create_fractal_art :: "turtle option" where
  "create_fractal_art = draw_fractal_tree artist INITIAL_LENGTH RECURSION_DEPTH"

section \<open>Float arithmetic within range\<close>

declare str_nat.simps [simp del]

lemma float_ovf_gt: "1000 < float_ovf"
  by (simp add: float_ovf_def)

lemma float_ovf_big: "1000000000 < float_ovf"
  by (simp add: float_ovf_def)

lemma fround_small: "\<bar>r\<bar> < 1000000000 \<Longrightarrow> fround r = Fin r"
  using float_ovf_big by (simp add: fround_def abs_less_iff)

lemma int_to_float_small: "\<bar>n\<bar> \<le> 1000000 \<Longrightarrow> int_to_float n = Inr (Fin (of_int n))"
proof -
  assume "\<bar>n\<bar> \<le> 1000000"
  then have "\<bar>real_of_int n\<bar> \<le> 1000000"
    by linarith
  then show ?thesis using float_ovf_big by (simp add: int_to_float_def)
qed

lemma trunc_mono: "a \<le> b \<Longrightarrow> trunc a \<le> trunc b"
  unfolding trunc_def
  by (smt (verit) ceiling_mono floor_mono floor_le_ceiling ceiling_le_zero zero_le_floor of_int_0)

lemma trunc_of_int: "trunc (of_int n) = n"
  by (simp add: trunc_def)

lemma trunc_between:
  assumes "0 \<le> r" "r \<le> of_int n"
  shows "0 \<le> trunc r \<and> trunc r \<le> n"
  using trunc_mono [OF assms(1)] trunc_mono [OF assms(2)]
  by (metis of_int_0 trunc_of_int)

section \<open>Properties of the colour mapping\<close>

lemma interpolate_fin:
  assumes "0 \<le> e" "e \<le> 255" "\<bar>of_int e * v\<bar> < float_ovf"
  shows "interpolate 0 e (Fin v) = Inr (trunc (of_int e * v))"
  using assms float_ovf_gt
  by (simp add: interpolate_def bindE_def int_to_float_def fround_def py_int_def abs_less_iff)

lemma raw_channels_fin:
  assumes "\<bar>255 * v\<bar> < float_ovf"
  shows "raw_channels (Fin v) = Inr (trunc (100 * v), trunc (100 * v), trunc (255 * v))"
proof -
  have "\<bar>100 * v\<bar> \<le> \<bar>255 * v\<bar>" by (simp add: abs_mult)
  with assms have "\<bar>100 * v\<bar> < float_ovf" by linarith
  with assms show ?thesis
    using interpolate_fin [of 100 v] interpolate_fin [of 255 v]
    by (simp add: raw_channels_def PATTERN_COLOR_RANGE_def bindE_def)
qed

lemma map_value_to_color_fin:
  assumes "\<bar>255 * v\<bar> < float_ovf"
  shows "map_value_to_color (Fin v) =
           Inr (clamp_channel (trunc (100 * v)), clamp_channel (trunc (100 * v)),
                clamp_channel (trunc (255 * v)))"
  by (simp add: map_value_to_color_def raw_channels_fin [OF assms] bindE_def)

lemma clamp_channel_range: "0 \<le> clamp_channel c \<and> clamp_channel c \<le> 255"
  by (simp add: clamp_channel_def)

lemma clamp_channel_mono: "a \<le> b \<Longrightarrow> clamp_channel a \<le> clamp_channel b"
  by (simp add: clamp_channel_def)

lemma unit_no_overflow: "0 \<le> v \<Longrightarrow> v \<le> 1 \<Longrightarrow> \<bar>255 * v\<bar> < float_ovf"
  using float_ovf_gt by simp

text \<open>
  When \<open>map_value_to_color\<close> raises: exactly on NaN, on the infinities and on a finite
  value whose product with 255, the widest span, overflows.
\<close>

lemma map_value_to_color_raises:
  "(\<exists>e. map_value_to_color x = Inl e) \<longleftrightarrow> (\<forall>v. x = Fin v \<longrightarrow> float_ovf \<le> \<bar>255 * v\<bar>)"
proof (cases x)
  case (Fin v)
  show ?thesis
  proof (cases "\<bar>255 * v\<bar> < float_ovf")
    case True
    then show ?thesis using Fin by (simp add: map_value_to_color_fin)
  next
    case False
    have "\<bar>100 * v\<bar> < float_ovf \<Longrightarrow> interpolate 0 100 (Fin v) = Inr (trunc (100 * v))"
      using interpolate_fin [of 100 v] by simp
    moreover have "\<not> \<bar>100 * v\<bar> < float_ovf \<Longrightarrow> interpolate 0 100 (Fin v) = Inl OverflowError"
      using float_ovf_gt
      by (auto simp add: interpolate_def bindE_def int_to_float_def fround_def py_int_def
          abs_less_iff not_less)
    moreover have "interpolate 0 255 (Fin v) = Inl OverflowError"
      using float_ovf_gt False
      by (auto simp add: interpolate_def bindE_def int_to_float_def fround_def py_int_def
          abs_less_iff not_less)
    ultimately show ?thesis using Fin False
      by (cases "\<bar>100 * v\<bar> < float_ovf")
         (simp_all add: map_value_to_color_def raw_channels_def PATTERN_COLOR_RANGE_def bindE_def)
  qed
qed (use float_ovf_gt in \<open>simp_all add: map_value_to_color_def raw_channels_def
      PATTERN_COLOR_RANGE_def interpolate_def bindE_def int_to_float_def py_int_def
      inf_signed_def\<close>)

text \<open>
  Claim C5. \<open>map_value_to_color(0.0)\<close> is the start colour \<open>(0, 0, 0)\<close>,
  \<open>map_value_to_color(1.0)\<close> is the end colour \<open>(100, 100, 255)\<close>, and for
  \<open>v1 \<le> v2\<close> in \<open>[0, 1]\<close> each channel of the colour of \<open>v1\<close> is at most the same
  channel of the colour of \<open>v2\<close>.
\<close>

theorem map_value_to_color_endpoints_monotone:
  assumes "0 \<le> v1" "v1 \<le> v2" "v2 \<le> 1"
  shows "map_value_to_color (Fin 0) = Inr (fst PATTERN_COLOR_RANGE)
       \<and> map_value_to_color (Fin 1) = Inr (snd PATTERN_COLOR_RANGE)
       \<and> fst PATTERN_COLOR_RANGE = (0, 0, 0) \<and> snd PATTERN_COLOR_RANGE = (100, 100, 255)
       \<and> (\<exists>r1 g1 b1 r2 g2 b2.
            map_value_to_color (Fin v1) = Inr (r1, g1, b1)
          \<and> map_value_to_color (Fin v2) = Inr (r2, g2, b2)
          \<and> r1 \<le> r2 \<and> g1 \<le> g2 \<and> b1 \<le> b2)"
proof -
  have z: "map_value_to_color (Fin 0) = Inr (0, 0, 0)"
    using map_value_to_color_fin [of 0] float_ovf_gt
    by (simp add: trunc_def clamp_channel_def)
  have o: "map_value_to_color (Fin 1) = Inr (100, 100, 255)"
    using map_value_to_color_fin [of 1] float_ovf_gt
    by (simp add: trunc_def clamp_channel_def)
  have n1: "\<bar>255 * v1\<bar> < float_ovf"
    by (rule unit_no_overflow) (use assms in linarith)+
  have n2: "\<bar>255 * v2\<bar> < float_ovf"
    by (rule unit_no_overflow) (use assms in linarith)+
  have "clamp_channel (trunc (100 * v1)) \<le> clamp_channel (trunc (100 * v2))"
    and "clamp_channel (trunc (255 * v1)) \<le> clamp_channel (trunc (255 * v2))"
    using assms by (simp_all add: clamp_channel_mono trunc_mono)
  then show ?thesis
    by (simp add: z o PATTERN_COLOR_RANGE_def map_value_to_color_fin [OF n1]
        map_value_to_color_fin [OF n2])
qed

theorem map_value_to_color_endpoints_monotone_witness:
  "(0::real) \<le> 1 / 4 \<and> (1 / 4 :: real) \<le> 1 / 2 \<and> (1 / 2 :: real) \<le> 1
   \<and> map_value_to_color (Fin 0) = Inr (0, 0, 0)
   \<and> map_value_to_color (Fin 1) = Inr (100, 100, 255)
   \<and> (\<exists>r1 g1 b1 r2 g2 b2.
            map_value_to_color (Fin (1 / 4)) = Inr (r1, g1, b1)
          \<and> map_value_to_color (Fin (1 / 2)) = Inr (r2, g2, b2)
          \<and> r1 \<le> r2 \<and> g1 \<le> g2 \<and> b1 \<le> b2)"
  using map_value_to_color_endpoints_monotone [of "1 / 4" "1 / 2"]
  by (simp add: PATTERN_COLOR_RANGE_def)

text \<open>
  Claim C6, as stated: for every input value the three channels returned lie in
  \<open>[0, 255]\<close>. It fails at NaN, where \<open>int()\<close> raises before the clamp is reached and
  no colour is returned.
\<close>

theorem map_value_to_color_nan: "map_value_to_color NaN = Inl ValueError"
  using float_ovf_gt
  by (simp add: map_value_to_color_def raw_channels_def PATTERN_COLOR_RANGE_def interpolate_def
      bindE_def int_to_float_def py_int_def)

lemma interpolate_overflow:
  assumes "0 \<le> e" "e \<le> 255" "float_ovf \<le> \<bar>of_int e * v\<bar>"
  shows "interpolate 0 e (Fin v) = Inl OverflowError"
  using assms float_ovf_gt
  by (auto simp add: interpolate_def bindE_def int_to_float_def fround_def py_int_def
      abs_less_iff not_less)

lemma map_value_to_color_overflow:
  assumes "float_ovf \<le> \<bar>255 * v\<bar>"
  shows "map_value_to_color (Fin v) = Inl OverflowError"
proof (cases "\<bar>100 * v\<bar> < float_ovf")
  case True
  then show ?thesis
    using interpolate_fin [of 100 v] interpolate_overflow [of 255 v] assms
    by (simp add: map_value_to_color_def raw_channels_def PATTERN_COLOR_RANGE_def bindE_def)
next
  case False
  then show ?thesis
    using interpolate_overflow [of 100 v]
    by (simp add: map_value_to_color_def raw_channels_def PATTERN_COLOR_RANGE_def bindE_def)
qed

lemma map_value_to_color_infinite:
  "map_value_to_color PInf = Inl OverflowError" "map_value_to_color NInf = Inl OverflowError"
  using float_ovf_gt
  by (simp_all add: map_value_to_color_def raw_channels_def PATTERN_COLOR_RANGE_def
      interpolate_def bindE_def int_to_float_def py_int_def inf_signed_def)

text \<open>
  Claim C6, amended: for every finite input value, inside \<open>[0, 1]\<close> or not, whose
  product with 255 does not overflow a float, \<open>map_value_to_color\<close> returns a colour and
  each of its three channels is an integer in \<open>[0, 255]\<close>. For every other input
  \<open>int()\<close> raises before the clamp and no colour is returned: \<open>ValueError\<close> for NaN,
  \<open>OverflowError\<close> for an infinity and for a finite value whose product with 255
  overflows.
\<close>

theorem map_value_to_color_channels_in_range:
  "(\<bar>255 * v\<bar> < float_ovf \<longrightarrow>
      (\<exists>r g b. map_value_to_color (Fin v) = Inr (r, g, b)
           \<and> 0 \<le> r \<and> r \<le> 255 \<and> 0 \<le> g \<and> g \<le> 255 \<and> 0 \<le> b \<and> b \<le> 255))
   \<and> (float_ovf \<le> \<bar>255 * v\<bar> \<longrightarrow> map_value_to_color (Fin v) = Inl OverflowError)
   \<and> map_value_to_color PInf = Inl OverflowError
   \<and> map_value_to_color NInf = Inl OverflowError
   \<and> map_value_to_color NaN = Inl ValueError"
proof (intro conjI impI)
  assume "\<bar>255 * v\<bar> < float_ovf"
  then show "\<exists>r g b. map_value_to_color (Fin v) = Inr (r, g, b)
           \<and> 0 \<le> r \<and> r \<le> 255 \<and> 0 \<le> g \<and> g \<le> 255 \<and> 0 \<le> b \<and> b \<le> 255"
    by (simp add: map_value_to_color_fin clamp_channel_range)
next
  assume "float_ovf \<le> \<bar>255 * v\<bar>"
  then show "map_value_to_color (Fin v) = Inl OverflowError"
    by (rule map_value_to_color_overflow)
next
  show "map_value_to_color NaN = Inl ValueError"
    using float_ovf_gt
    by (simp add: map_value_to_color_def raw_channels_def PATTERN_COLOR_RANGE_def
        interpolate_def bindE_def int_to_float_def py_int_def)
qed (rule map_value_to_color_infinite)+

theorem map_value_to_color_channels_in_range_witness:
  "\<bar>255 * (- 7 / 2 :: real)\<bar> < float_ovf
   \<and> (\<exists>r g b. map_value_to_color (Fin (- 7 / 2)) = Inr (r, g, b)
           \<and> 0 \<le> r \<and> r \<le> 255 \<and> 0 \<le> g \<and> g \<le> 255 \<and> 0 \<le> b \<and> b \<le> 255)
   \<and> float_ovf \<le> \<bar>255 * (2 ^ 1020 :: real)\<bar>
   \<and> map_value_to_color (Fin (2 ^ 1020)) = Inl OverflowError"
proof -
  have h: "\<bar>255 * (- 7 / 2 :: real)\<bar> < float_ovf"
    using float_ovf_gt by simp
  have k: "float_ovf \<le> \<bar>255 * (2 ^ 1020 :: real)\<bar>"
    by (simp add: float_ovf_def)
  show ?thesis
    using h k map_value_to_color_channels_in_range [of "- 7 / 2"]
      map_value_to_color_channels_in_range [of "2 ^ 1020"]
    by blast
qed

text \<open>
  Claim C10. For every value in \<open>[0, 1]\<close> the channels computed before the clamp
  already lie in \<open>[0, 255]\<close>, so the clamp changes none of them and the colour returned
  is the unclamped one.
\<close>

theorem clamp_is_noop_on_unit_interval:
  assumes "0 \<le> v" "v \<le> 1"
  shows "\<exists>r g b. raw_channels (Fin v) = Inr (r, g, b)
           \<and> 0 \<le> r \<and> r \<le> 255 \<and> 0 \<le> g \<and> g \<le> 255 \<and> 0 \<le> b \<and> b \<le> 255
           \<and> clamp_channel r = r \<and> clamp_channel g = g \<and> clamp_channel b = b
           \<and> map_value_to_color (Fin v) = Inr (r, g, b)"
proof -
  have n: "\<bar>255 * v\<bar> < float_ovf" using assms by (rule unit_no_overflow)
  have r: "0 \<le> trunc (100 * v) \<and> trunc (100 * v) \<le> 100"
    using assms by (intro trunc_between) simp_all
  have b: "0 \<le> trunc (255 * v) \<and> trunc (255 * v) \<le> 255"
    using assms by (intro trunc_between) simp_all
  from r b show ?thesis
    by (simp add: raw_channels_fin [OF n] map_value_to_color_fin [OF n] clamp_channel_def)
qed

theorem clamp_is_noop_on_unit_interval_witness:
  "(0::real) \<le> 3 / 4 \<and> (3 / 4 :: real) \<le> 1
   \<and> (\<exists>r g b. raw_channels (Fin (3 / 4)) = Inr (r, g, b)
           \<and> clamp_channel r = r \<and> clamp_channel g = g \<and> clamp_channel b = b
           \<and> map_value_to_color (Fin (3 / 4)) = Inr (r, g, b))"
  using clamp_is_noop_on_unit_interval [of "3 / 4"] by auto

section \<open>Properties of the pattern value\<close>

lemma math_unbound: "lookup_global module_globals ''math'' = Inl (NameError ''math'')"
  by (simp add: lookup_global_def module_globals_def)

lemma bindE_Inr_iff: "bindE m f = Inr y \<longleftrightarrow> (\<exists>v. m = Inr v \<and> f v = Inr y)"
  by (cases m) (simp_all add: bindE_def)

text \<open>
  In the script's namespace every call ends in an exception: \<open>OverflowError\<close> when an
  integer argument is too large for a float, \<open>NameError\<close> at the first use of
  \<open>math\<close> otherwise.
\<close>

lemma get_pattern_value_raises:
  "get_pattern_value row col time_factor = Inl OverflowError
   \<or> get_pattern_value row col time_factor = Inl (NameError ''math'')"
  by (simp add: get_pattern_value_def get_pattern_value_in_def int_to_float_def bindE_def
      math_unbound Let_def)

text \<open>
  Claim C2 says that every call of \<open>get_pattern_value\<close> returns normally. In the
  script no call does: whatever the arguments, the result is not a value.
\<close>

theorem get_pattern_value_never_returns:
  "get_pattern_value row col time_factor \<noteq> Inr v"
  by (simp add: get_pattern_value_def get_pattern_value_in_def bindE_Inr_iff math_unbound Let_def)

text \<open>
  Claim C3 says that the value returned lies in \<open>[0, 1]\<close>, and the specification gives
  row 0, column 0, time 0 as an input with a definite value. The script raises
  \<open>NameError\<close> there.
\<close>

theorem get_pattern_value_origin_raises:
  "get_pattern_value 0 0 (Fin 0) = Inl (NameError ''math'')"
  using float_ovf_gt
  by (simp add: get_pattern_value_def get_pattern_value_in_def int_to_float_def bindE_def
      math_unbound Let_def)

text \<open>
  The formula itself is the one the claims describe: in a namespace that binds \<open>math\<close>,
  for arguments of moderate size, the call returns a finite value in \<open>[0, 1]\<close>.
\<close>

lemma sin_cos_half_sum: "\<bar>sin a * (5 / 10) + cos b * (5 / 10)\<bar> \<le> (1::real)"
  using sin_le_one [of a] sin_ge_minus_one [of a] cos_le_one [of b] cos_ge_minus_one [of b]
  unfolding abs_le_iff by linarith

lemma get_pattern_value_in_bounded:
  assumes m: "''math'' \<in> set g"
    and r: "\<bar>row\<bar> \<le> 100000" and c: "\<bar>col\<bar> \<le> 100000" and t: "\<bar>t\<bar> \<le> 100000"
  shows "\<exists>v. get_pattern_value_in g row col (Fin t) = Inr (Fin v) \<and> 0 \<le> v \<and> v \<le> 1"
proof -
  have rr: "\<bar>real_of_int row\<bar> \<le> 100000" and cc: "\<bar>real_of_int col\<bar> \<le> 100000"
    using r c by linarith+
  have i1: "int_to_float (row + col) = Inr (Fin (of_int (row + col)))"
    using r c by (intro int_to_float_small) linarith
  have i2: "int_to_float \<bar>row - col\<bar> = Inr (Fin (of_int \<bar>row - col\<bar>))"
    using r c by (intro int_to_float_small) linarith
  have i3: "int_to_float row = Inr (Fin (of_int row))"
    using r by (intro int_to_float_small) linarith
  have i4: "int_to_float col = Inr (Fin (of_int col))"
    using c by (intro int_to_float_small) linarith
  have i5: "int_to_float 1 = Inr (Fin 1)" "int_to_float 2 = Inr (Fin 2)"
    using int_to_float_small [of 1] int_to_float_small [of 2] by simp_all
  define base where "base = (of_int row + of_int col) * (1 / 10 :: real)"
  define d where "d = \<bar>of_int row - of_int col\<bar> * (2 / 10 :: real)"
  define n1 where "n1 = d + of_int row * (3 / 10)"
  define n2 where "n2 = n1 + of_int col * (4 / 10)"
  define noise where "noise = n2 + t * (5 / 10)"
  define s1 where "s1 = sin (base + noise)"
  define s2 where "s2 = cos (noise * (15 / 10))"
  define comb where "comb = s1 * (5 / 10) + s2 * (5 / 10)"
  have b0: "\<bar>base\<bar> \<le> 100000" "\<bar>d\<bar> \<le> 100000" "\<bar>of_int row * (3 / 10 :: real)\<bar> \<le> 100000"
    "\<bar>of_int col * (4 / 10 :: real)\<bar> \<le> 100000" "\<bar>t * (5 / 10)\<bar> \<le> 100000"
    using rr cc t unfolding base_def d_def by (simp_all add: abs_le_iff)
  have b1: "\<bar>n1\<bar> \<le> 2 * 100000" "\<bar>n2\<bar> \<le> 3 * 100000" "\<bar>noise\<bar> \<le> 4 * 100000"
    using b0 unfolding n1_def n2_def noise_def by (simp_all add: abs_le_iff)
  have b2: "\<bar>base + noise\<bar> \<le> 5 * 100000" "\<bar>noise * (15 / 10)\<bar> \<le> 6 * 100000"
    using b0 b1 by (simp_all add: abs_le_iff)
  have b3: "\<bar>s1 * (5 / 10)\<bar> \<le> 1" "\<bar>s2 * (5 / 10)\<bar> \<le> 1" "\<bar>comb\<bar> \<le> 1"
    unfolding comb_def s1_def s2_def
    using sin_cos_half_sum [of "base + noise" "noise * (15 / 10)"]
      sin_le_one [of "base + noise"] sin_ge_minus_one [of "base + noise"]
      cos_le_one [of "noise * (15 / 10)"] cos_ge_minus_one [of "noise * (15 / 10)"]
    unfolding abs_le_iff by linarith+
  have f1: "fmul (Fin (of_int (row + col))) (Fin (1 / 10)) = Fin base"
    using b0 by (simp add: base_def fround_small)
  have f2: "fmul (Fin (of_int \<bar>row - col\<bar>)) (Fin (2 / 10)) = Fin d"
    using b0 by (simp add: d_def fround_small)
  have f3: "fadd (Fin d) (fmul (Fin (of_int row)) (Fin (3 / 10))) = Fin n1"
    using b0 b1 by (simp add: n1_def fround_small)
  have f4: "fadd (Fin n1) (fmul (Fin (of_int col)) (Fin (4 / 10))) = Fin n2"
    using b0 b1 by (simp add: n2_def fround_small)
  have f5: "fadd (Fin n2) (fmul (Fin t) (Fin (5 / 10))) = Fin noise"
    using b0 b1 by (simp add: noise_def fround_small)
  have f6: "fadd (Fin base) (Fin noise) = Fin (base + noise)"
    "fmul (Fin noise) (Fin (15 / 10)) = Fin (noise * (15 / 10))"
    using b2 by (simp_all add: fround_small)
  have f7: "fadd (fmul (Fin s1) (Fin (5 / 10))) (fmul (Fin s2) (Fin (5 / 10))) = Fin comb"
    using b3 by (simp add: comb_def fround_small)
  have f8: "fadd (Fin comb) (Fin 1) = Fin (comb + 1)"
    "fdiv (Fin (comb + 1)) (Fin 2) = Inr (Fin ((comb + 1) / 2))"
    using b3 by (simp_all add: fround_small abs_le_iff)
  have "get_pattern_value_in g row col (Fin t) = Inr (Fin ((comb + 1) / 2))"
    unfolding get_pattern_value_in_def
    by (simp only: i1 i2 i3 i4 i5 bindE_def sum.case Let_def f1 f2 f3 f4 f5 f6 f7 f8
        lookup_global_def m if_True math_sin_def math_cos_def pyfloat.case
        s1_def [symmetric] s2_def [symmetric])
  moreover have "0 \<le> (comb + 1) / 2 \<and> (comb + 1) / 2 \<le> 1"
    using b3 by (simp add: abs_le_iff)
  ultimately show ?thesis by blast
qed

section \<open>Properties of the frame driver\<close>

lemma render_frame_0: "render_frame module_globals 60 0 = Inl (NameError ''math'')"
  using float_ovf_gt
  by (simp add: render_frame_def py_truediv_def bindE_def draw_grid_pattern_in_def py_range_def
      GRID_SIZE_def upto.simps [of 0 15] get_pattern_value_in_def int_to_float_def math_unbound)

lemma str_int_60: "str_int 60 = ''60''"
  by (simp add: str_int_def str_nat.simps [of 60] str_nat.simps [of 6])

text \<open>
  Claim C7 says that the run of the driver with 60 frames leaves exactly 60 files. The
  script's run ends in the first cell of the first frame, with \<open>NameError\<close>, after the
  first line of output and before any file is saved.
\<close>

theorem main_raises:
  "main = \<lparr>files = [], printed = [''Generating 60 frames of evolving patterns...''],
            raised = Some (NameError ''math'')\<rparr>"
  by (simp add: main_def main_in_def py_range_def upto.simps [of 0 59] render_frame_0 str_int_60)

text \<open>The time factor of a frame lies in \<open>[0, 1)\<close>.\<close>

lemma py_truediv_unit:
  assumes "0 \<le> k" "k < n"
  shows "\<exists>t. py_truediv k n = Inr (Fin t) \<and> t = of_int k / of_int n \<and> 0 \<le> t \<and> t < 1"
proof -
  have "0 \<le> real_of_int k / real_of_int n" "real_of_int k / real_of_int n < 1"
    using assms by simp_all
  moreover from this have "\<not> float_ovf \<le> \<bar>real_of_int k / real_of_int n\<bar>"
    using float_ovf_gt by linarith
  ultimately show ?thesis using assms by (simp add: py_truediv_def)
qed

text \<open>The file names of the 60 frames, in order.\<close>

lemma frame_filenames:
  "map (frame_filename ''pattern_grid_'') (py_range 60) =
     map (\<lambda>s. ''pattern_grid_'' @ s @ ''.png'')
      [''001'', ''002'', ''003'', ''004'', ''005'', ''006'', ''007'', ''008'', ''009'', ''010'',
       ''011'', ''012'', ''013'', ''014'', ''015'', ''016'', ''017'', ''018'', ''019'', ''020'',
       ''021'', ''022'', ''023'', ''024'', ''025'', ''026'', ''027'', ''028'', ''029'', ''030'',
       ''031'', ''032'', ''033'', ''034'', ''035'', ''036'', ''037'', ''038'', ''039'', ''040'',
       ''041'', ''042'', ''043'', ''044'', ''045'', ''046'', ''047'', ''048'', ''049'', ''050'',
       ''051'', ''052'', ''053'', ''054'', ''055'', ''056'', ''057'', ''058'', ''059'', ''060'']"
  by code_simp

lemma frame_filenames_distinct: "distinct (map (frame_filename ''pattern_grid_'') (py_range 60))"
  unfolding frame_filenames by (simp add: distinct_map inj_on_def)

text \<open>
  In a namespace that binds \<open>math\<close> the driver does what the claim says: every cell of
  every frame is drawn, and the run saves the 60 files above, none twice.
\<close>

lemma draw_row_cells_ok:
  assumes "''math'' \<in> set g" "\<bar>row\<bar> \<le> 100000" "\<bar>t\<bar> \<le> 100000"
    and "\<forall>col\<in>set cols. \<bar>col\<bar> \<le> 100000"
  shows "\<exists>img'. draw_row_cells g (Fin t) row cols img = Inr img'"
  using assms(4)
proof (induction cols arbitrary: img)
  case Nil
  show ?case by simp
next
  case (Cons col cols)
  then have "\<bar>col\<bar> \<le> 100000" by simp
  from get_pattern_value_in_bounded [OF assms(1) assms(2) this assms(3)]
  obtain v where v: "get_pattern_value_in g row col (Fin t) = Inr (Fin v)" "0 \<le> v" "v \<le> 1"
    by blast
  have c: "\<exists>rgb. map_value_to_color (Fin v) = Inr rgb"
    using map_value_to_color_fin [OF unit_no_overflow [OF v(2) v(3)]] by simp
  from Cons.prems have "\<forall>col\<in>set cols. \<bar>col\<bar> \<le> 100000" by simp
  from Cons.IH [OF this] c show ?case
    by (auto simp add: v(1) bindE_def Let_def)
qed

lemma py_range_set: "set (py_range n) = {0..n - 1}"
  by (simp add: py_range_def)

lemma draw_rows_ok:
  assumes "''math'' \<in> set g" "\<bar>t\<bar> \<le> 100000"
    and "\<forall>row\<in>set rows. \<bar>row\<bar> \<le> 100000"
  shows "\<exists>img'. draw_rows g (Fin t) rows img = Inr img'"
  using assms(3)
proof (induction rows arbitrary: img)
  case Nil
  show ?case by simp
next
  case (Cons row rows)
  then have r: "\<bar>row\<bar> \<le> 100000" by simp
  have "\<forall>col\<in>set (py_range GRID_SIZE). \<bar>col\<bar> \<le> 100000"
    by (auto simp add: py_range_set GRID_SIZE_def)
  from draw_row_cells_ok [OF assms(1) r assms(2) this]
  obtain img1 where "draw_row_cells g (Fin t) row (py_range GRID_SIZE) img = Inr img1"
    by blast
  moreover from Cons.prems have "\<forall>row\<in>set rows. \<bar>row\<bar> \<le> 100000" by simp
  from Cons.IH [OF this] have "\<exists>img'. draw_rows g (Fin t) rows img1 = Inr img'" .
  ultimately show ?case by (simp add: bindE_def)
qed

lemma render_frame_ok:
  assumes "''math'' \<in> set g" "0 \<le> k" "k < n"
  shows "\<exists>img. render_frame g n k = Inr img"
proof -
  from py_truediv_unit [OF assms(2,3)]
  obtain t where t: "py_truediv k n = Inr (Fin t)" "0 \<le> t" "t < 1" by blast
  then have "\<bar>t\<bar> \<le> 100000" by simp
  moreover have "\<forall>row\<in>set (py_range GRID_SIZE). \<bar>row\<bar> \<le> 100000"
    by (auto simp add: py_range_set GRID_SIZE_def)
  ultimately show ?thesis
    using draw_rows_ok [OF assms(1)]
    by (simp add: render_frame_def t(1) bindE_def draw_grid_pattern_in_def)
qed

lemma save_file_new:
  "name \<notin> set (map fst fs) \<Longrightarrow> map fst (save_file fs name img) = map fst fs @ [name]"
  by (induction fs name img rule: save_file.induct) auto

lemma frames_loop_ok:
  assumes "\<forall>k\<in>set ks. \<exists>img. render_frame g n k = Inr img"
    and "distinct (map fst (files st) @ map (frame_filename b) ks)"
  shows "raised (frames_loop g n b ks st) = raised st
       \<and> map fst (files (frames_loop g n b ks st)) = map fst (files st) @ map (frame_filename b) ks"
  using assms
proof (induction ks arbitrary: st)
  case Nil
  show ?case by simp
next
  case (Cons k ks)
  from Cons.prems(1) obtain img where img: "render_frame g n k = Inr img" by auto
  let ?st = "st\<lparr>files := save_file (files st) (frame_filename b k) img,
                  printed := printed st @ [''Saved '' @ frame_filename b k]\<rparr>"
  have new: "frame_filename b k \<notin> set (map fst (files st))"
    using Cons.prems(2) by auto
  have fs: "map fst (files ?st) = map fst (files st) @ [frame_filename b k]"
    using save_file_new [OF new] by simp
  have "\<forall>k\<in>set ks. \<exists>img. render_frame g n k = Inr img"
    using Cons.prems(1) by simp
  moreover have "distinct (map fst (files ?st) @ map (frame_filename b) ks)"
    using Cons.prems(2) unfolding fs by auto
  ultimately have "raised (frames_loop g n b ks ?st) = raised ?st
       \<and> map fst (files (frames_loop g n b ks ?st)) = map fst (files ?st) @ map (frame_filename b) ks"
    by (rule Cons.IH)
  then show ?case unfolding fs by (simp add: img Let_def)
qed

lemma main_in_with_math:
  assumes "''math'' \<in> set g"
  shows "raised (main_in g) = None
       \<and> map fst (files (main_in g)) = map (frame_filename ''pattern_grid_'') (py_range 60)"
proof -
  have "\<forall>k\<in>set (py_range 60). \<exists>img. render_frame g 60 k = Inr img"
    using render_frame_ok [OF assms] by (auto simp add: py_range_set)
  from frames_loop_ok [OF this,
      of "\<lparr>files = [],
           printed = [''Generating '' @ str_int 60 @ '' frames of evolving patterns...''],
           raised = None\<rparr>" "''pattern_grid_''"]
    frame_filenames_distinct
  show ?thesis
    by (simp add: main_in_def Let_def)
qed

section \<open>Properties of the turtle\<close>

lemma norm360_range: "0 \<le> norm360 a \<and> norm360 a < 360"
proof -
  have "of_int \<lfloor>a / 360\<rfloor> \<le> a / 360" "a / 360 < of_int \<lfloor>a / 360\<rfloor> + 1"
    by linarith+
  then show ?thesis by (simp add: norm360_def field_simps)
qed

lemma norm360_idem: "norm360 (norm360 a) = norm360 a"
proof -
  have "\<lfloor>norm360 a / 360\<rfloor> = 0"
    using norm360_range [of a] by (simp add: floor_eq_iff)
  then show ?thesis by (simp add: norm360_def [of "norm360 a"])
qed

lemma norm360_radians: "norm360 a * pi / 180 = a * pi / 180 - 2 * pi * of_int \<lfloor>a / 360\<rfloor>"
  by (simp add: norm360_def field_simps)

lemma cos_norm360: "cos (norm360 a * pi / 180) = cos (a * pi / 180)"
  unfolding norm360_radians by (simp add: cos_diff cos_int_2pin sin_int_2pin)

lemma sin_norm360: "sin (norm360 a * pi / 180) = sin (a * pi / 180)"
  unfolding norm360_radians by (simp add: sin_diff cos_int_2pin sin_int_2pin)

lemma restore_position: "position (restore t p h) = p"
  by (simp add: restore_def pendown_def setheading_def goto_def move_to_def penup_def position_def)

lemma restore_heading: "heading (restore t p h) = norm360 h"
  by (simp add: restore_def pendown_def setheading_def goto_def move_to_def penup_def heading_def)

lemma restore_forward_calls: "forward_calls (restore t p h) = forward_calls t"
  by (simp add: restore_def pendown_def setheading_def goto_def move_to_def penup_def
      forward_calls_def)

lemma forward_forward_calls: "forward_calls (forward t d) = Suc (forward_calls t)"
  by (simp add: forward_def move_to_def forward_calls_def Let_def)

lemma forward_heading: "heading (forward t d) = heading t"
  by (simp add: forward_def move_to_def heading_def Let_def)

lemma forward_position:
  "position (forward t d) =
     (xcor t + d * cos (heading t * pi / 180), ycor t + d * sin (heading t * pi / 180))"
  by (simp add: forward_def move_to_def position_def heading_def Let_def cos_norm360 sin_norm360)

lemma left_forward_calls: "forward_calls (left t a) = forward_calls t"
  by (simp add: left_def forward_calls_def)

lemma right_forward_calls: "forward_calls (right t a) = forward_calls t"
  by (simp add: right_def forward_calls_def)

section \<open>Properties of the recursive drawer\<close>

lemma draw_zero: "draw_fractal_tree t len 0 = Some t"
  by (subst draw_fractal_tree.simps) simp

lemma draw_step:
  assumes "depth \<noteq> 0"
    and "draw_fractal_tree (left (forward t len) BRANCH_ANGLE) (len * BRANCH_SCALE) (depth - 1)
           = Some t3"
    and "draw_fractal_tree
           (right (restore t3 (position (forward t len)) (heading (forward t len))) BRANCH_ANGLE)
           (len * BRANCH_SCALE) (depth - 1) = Some t6"
  shows "draw_fractal_tree t len depth
           = Some (restore t6 (position (forward t len)) (heading (forward t len)))"
  using assms by (subst draw_fractal_tree.simps) (simp add: Let_def)

text \<open>
  The induction behind the claims below, on the depth as a natural number: the call
  returns, having issued \<open>2^n - 1\<close> \<open>forward\<close> calls, and from depth 1 on it leaves the
  turtle on the state saved after its own \<open>forward\<close>.
\<close>

lemma draw_nat:
  "\<exists>t'. draw_fractal_tree t len (int n) = Some t'
     \<and> forward_calls t' = forward_calls t + (2 ^ n - 1)
     \<and> (0 < n \<longrightarrow> position t' = position (forward t len) \<and> heading t' = heading t)"
proof (induction n arbitrary: t len)
  case 0
  show ?case by (simp add: draw_zero)
next
  case (Suc n)
  let ?t1 = "forward t len"
  let ?p = "position ?t1" and ?h = "heading ?t1"
  from Suc.IH [of "left ?t1 BRANCH_ANGLE" "len * BRANCH_SCALE"]
  obtain t3 where t3:
      "draw_fractal_tree (left ?t1 BRANCH_ANGLE) (len * BRANCH_SCALE) (int n) = Some t3"
    and c3: "forward_calls t3 = forward_calls (left ?t1 BRANCH_ANGLE) + (2 ^ n - 1)"
    by blast
  from Suc.IH [of "right (restore t3 ?p ?h) BRANCH_ANGLE" "len * BRANCH_SCALE"]
  obtain t6 where t6:
      "draw_fractal_tree (right (restore t3 ?p ?h) BRANCH_ANGLE) (len * BRANCH_SCALE) (int n)
         = Some t6"
    and c6: "forward_calls t6 = forward_calls (right (restore t3 ?p ?h) BRANCH_ANGLE) + (2 ^ n - 1)"
    by blast
  have run: "draw_fractal_tree t len (int (Suc n)) = Some (restore t6 ?p ?h)"
    using t3 t6 by (intro draw_step) simp_all
  have "forward_calls (restore t6 ?p ?h) = Suc (forward_calls t) + (2 ^ n - 1) + (2 ^ n - 1)"
    by (simp add: restore_forward_calls c6 right_forward_calls c3 left_forward_calls
        forward_forward_calls)
  also have "\<dots> = forward_calls t + (2 ^ Suc n - 1)"
  proof -
    have "(1::nat) \<le> 2 ^ n" by simp
    then show ?thesis by simp
  qed
  finally have cnt: "forward_calls (restore t6 ?p ?h) = forward_calls t + (2 ^ Suc n - 1)" .
  have "heading (restore t6 ?p ?h) = heading t"
    by (simp add: restore_heading forward_heading) (simp add: heading_def norm360_idem)
  with run cnt show ?case
    by (simp add: restore_position)
qed

text \<open>A call that returns was made at a depth that is not negative.\<close>

lemma draw_returns_nonneg:
  assumes "draw_fractal_tree t len depth = Some t'"
  shows "0 \<le> depth"
proof (rule draw_fractal_tree.raw_induct [where P = "\<lambda>t len depth t'. 0 \<le> depth", OF _ assms],
    goal_cases)
  case (1 f t len depth ta)
  show ?case
  proof (cases "depth = 0")
    case True
    then show ?thesis by simp
  next
    case False
    with 1(2) obtain t3
      where "f (left (forward t len) BRANCH_ANGLE) (len * BRANCH_SCALE) (depth - 1) = Some t3"
      by (auto simp: Let_def split: bind_splits)
    from 1(1) [OF this] show ?thesis by simp
  qed
qed

lemma draw_negative: "depth < 0 \<Longrightarrow> draw_fractal_tree t len depth = None"
  using draw_returns_nonneg [of t len depth] by (cases "draw_fractal_tree t len depth") auto

lemma artist_state:
  "position artist = (0, - 250)" "heading artist = 90" "forward_calls artist = 0"
  by (simp_all add: artist_def pendown_def left_def goto_def move_to_def penup_def new_turtle_def
      position_def heading_def norm360_def forward_calls_def)

text \<open>
  Claim C8. For every depth \<open>D \<ge> 0\<close> and every length the call terminates. The
  recursion is on the depth: at 0 the call returns at once, and at any other depth it
  is made of two calls at depth \<open>D - 1\<close>, both returning, the second started from the
  state restored after the first.
\<close>

theorem draw_fractal_tree_terminates:
  assumes "0 \<le> depth"
  shows "(\<exists>t'. draw_fractal_tree t len depth = Some t')
       \<and> (depth = 0 \<longrightarrow> draw_fractal_tree t len depth = Some t)
       \<and> (depth \<noteq> 0 \<longrightarrow>
            (\<exists>t3 t6.
               draw_fractal_tree (left (forward t len) BRANCH_ANGLE) (len * BRANCH_SCALE)
                 (depth - 1) = Some t3
             \<and> draw_fractal_tree
                 (right (restore t3 (position (forward t len)) (heading (forward t len)))
                    BRANCH_ANGLE)
                 (len * BRANCH_SCALE) (depth - 1) = Some t6
             \<and> draw_fractal_tree t len depth
                 = Some (restore t6 (position (forward t len)) (heading (forward t len)))))"
proof (intro conjI impI)
  show "\<exists>t'. draw_fractal_tree t len depth = Some t'"
    using draw_nat [of t len "nat depth"] assms by auto
next
  assume "depth = 0"
  then show "draw_fractal_tree t len depth = Some t" by (simp add: draw_zero)
next
  assume nz: "depth \<noteq> 0"
  with assms have d: "int (nat (depth - 1)) = depth - 1" by simp
  let ?p = "position (forward t len)" and ?h = "heading (forward t len)"
  from draw_nat [of "left (forward t len) BRANCH_ANGLE" "len * BRANCH_SCALE" "nat (depth - 1)"]
  obtain t3 where t3:
    "draw_fractal_tree (left (forward t len) BRANCH_ANGLE) (len * BRANCH_SCALE) (depth - 1)
       = Some t3"
    unfolding d by blast
  from draw_nat [of "right (restore t3 ?p ?h) BRANCH_ANGLE" "len * BRANCH_SCALE" "nat (depth - 1)"]
  obtain t6 where t6:
    "draw_fractal_tree (right (restore t3 ?p ?h) BRANCH_ANGLE) (len * BRANCH_SCALE) (depth - 1)
       = Some t6"
    unfolding d by blast
  from draw_step [OF nz t3 t6] t3 t6
  show "\<exists>t3 t6.
      draw_fractal_tree (left (forward t len) BRANCH_ANGLE) (len * BRANCH_SCALE) (depth - 1)
        = Some t3
    \<and> draw_fractal_tree (right (restore t3 ?p ?h) BRANCH_ANGLE) (len * BRANCH_SCALE) (depth - 1)
        = Some t6
    \<and> draw_fractal_tree t len depth = Some (restore t6 ?p ?h)"
    by blast
qed

theorem draw_fractal_tree_terminates_witness:
  "0 \<le> RECURSION_DEPTH \<and> RECURSION_DEPTH \<noteq> 0
   \<and> (\<exists>t'. draw_fractal_tree artist INITIAL_LENGTH RECURSION_DEPTH = Some t')
   \<and> (\<exists>t3 t6.
        draw_fractal_tree (left (forward artist INITIAL_LENGTH) BRANCH_ANGLE)
          (INITIAL_LENGTH * BRANCH_SCALE) (RECURSION_DEPTH - 1) = Some t3
      \<and> draw_fractal_tree
          (right (restore t3 (position (forward artist INITIAL_LENGTH))
                    (heading (forward artist INITIAL_LENGTH))) BRANCH_ANGLE)
          (INITIAL_LENGTH * BRANCH_SCALE) (RECURSION_DEPTH - 1) = Some t6
      \<and> draw_fractal_tree artist INITIAL_LENGTH RECURSION_DEPTH
          = Some (restore t6 (position (forward artist INITIAL_LENGTH))
                    (heading (forward artist INITIAL_LENGTH))))
   \<and> (0::int) \<le> 0 \<and> draw_fractal_tree artist INITIAL_LENGTH 0 = Some artist"
proof -
  have h: "0 \<le> RECURSION_DEPTH" and nz: "RECURSION_DEPTH \<noteq> 0"
    by (simp_all add: RECURSION_DEPTH_def)
  have z: "(0::int) \<le> 0" by simp
  show ?thesis
    using h nz draw_fractal_tree_terminates [OF h, of artist INITIAL_LENGTH]
      draw_fractal_tree_terminates [OF z, of artist INITIAL_LENGTH]
    by simp
qed

text \<open>
  Claim C4. For every depth \<open>D \<ge> 0\<close> and every length, the call issues exactly
  \<open>2^D - 1\<close> calls of \<open>forward\<close>: none at depth 0, one at depth 1, three at depth 2.
\<close>

theorem forward_call_count:
  assumes "0 \<le> depth"
  shows "\<exists>t'. draw_fractal_tree t len depth = Some t'
           \<and> forward_calls t' = forward_calls t + (2 ^ nat depth - 1)"
  using draw_nat [of t len "nat depth"] assms by auto

theorem forward_call_count_witness:
  "(0::int) \<le> 0 \<and> (0::int) \<le> 1 \<and> (0::int) \<le> 2 \<and> 0 \<le> RECURSION_DEPTH
   \<and> (\<exists>t'. draw_fractal_tree artist INITIAL_LENGTH 0 = Some t' \<and> forward_calls t' = 0)
   \<and> (\<exists>t'. draw_fractal_tree artist INITIAL_LENGTH 1 = Some t' \<and> forward_calls t' = 1)
   \<and> (\<exists>t'. draw_fractal_tree artist INITIAL_LENGTH 2 = Some t' \<and> forward_calls t' = 3)
   \<and> (\<exists>t'. create_fractal_art = Some t' \<and> forward_calls t' = 511)"
  using forward_call_count [of 0 artist INITIAL_LENGTH]
    forward_call_count [of 1 artist INITIAL_LENGTH]
    forward_call_count [of 2 artist INITIAL_LENGTH]
    forward_call_count [of RECURSION_DEPTH artist INITIAL_LENGTH]
  by (simp add: artist_state create_fractal_art_def RECURSION_DEPTH_def)

text \<open>
  Claim C9. For every length \<open>L\<close> and every depth \<open>D \<ge> 1\<close>, after the call the
  heading is the heading at entry and the position is the entry position moved by \<open>L\<close>
  along the entry heading: the last restore goes to the state saved after the first
  \<open>forward\<close>, the tip of the branch.
\<close>

theorem tree_ends_at_branch_tip:
  assumes "1 \<le> depth"
  shows "\<exists>t'. draw_fractal_tree t len depth = Some t'
           \<and> heading t' = heading t
           \<and> position t' = (xcor t + len * cos (heading t * pi / 180),
                            ycor t + len * sin (heading t * pi / 180))"
proof -
  from assms have "0 < nat depth" "int (nat depth) = depth" by simp_all
  with draw_nat [of t len "nat depth"] show ?thesis
    by (auto simp add: forward_position)
qed

theorem tree_ends_at_branch_tip_witness:
  "1 \<le> RECURSION_DEPTH
   \<and> (\<exists>t'. create_fractal_art = Some t' \<and> heading t' = 90 \<and> position t' = (0, - 150))"
proof -
  have h: "1 \<le> RECURSION_DEPTH" by (simp add: RECURSION_DEPTH_def)
  have x: "xcor artist = 0" and y: "ycor artist = - 250"
    using artist_state(1) by (simp_all add: position_def)
  have a: "(90::real) * pi / 180 = pi / 2" by simp
  show ?thesis
    using h tree_ends_at_branch_tip [OF h, of artist INITIAL_LENGTH]
    by (simp add: create_fractal_art_def artist_state(2) x y a INITIAL_LENGTH_def)
qed

text \<open>
  Claim C1 says that after the call at the root the position and the heading are those
  before the call, and the comment on the last restore says the same: it backtracks
  "to the starting position of the current branch". The code goes to \<open>current_pos\<close>,
  saved after \<open>forward\<close>, the end of the branch: a new turtle at the origin, heading
  east, is at \<open>(100, 0)\<close> after \<open>draw_fractal_tree(t, 100, 1)\<close>, not at the origin.
\<close>

theorem root_call_displaces_cursor:
  "map_option position (draw_fractal_tree new_turtle 100 1) \<noteq> Some (position new_turtle)"
  by (simp add: draw_step [where ?t3.0 = "left (forward new_turtle 100) BRANCH_ANGLE"] draw_zero
      restore_position)
     (simp add: forward_def position_def move_to_def new_turtle_def)

end
